theory Spec2Isabelle
  imports Main "HOL-Library.Word" "HOL-Library.Finite_Map"
begin

section \<open>The fragment of Go's fmt package that gomonitor.go uses\<close>

text \<open>
  gomonitor.go formats with \<^verbatim>\<open>fmt.Sprintf\<close> and the verbs \<^verbatim>\<open>%s\<close>, \<^verbatim>\<open>%d\<close> and
  \<^verbatim>\<open>%.2f\<close>. Go strings are byte sequences, so they are \<^typ>\<open>string\<close> here (a list of
  8-bit characters). Go's \<^verbatim>\<open>int\<close> is modelled as \<^typ>\<open>int\<close>: the library never does
  arithmetic on an exit code, it only compares, prints and returns it, so the machine
  width plays no role. A \<^verbatim>\<open>float64\<close> is its IEEE 754 binary64 bit pattern.
\<close>

text \<open>The character of a decimal digit; only applied to numbers below 10.\<close>

definition digit :: "nat \<Rightarrow> char" where
  "digit d = ''0123456789'' ! d"

fun digits10 :: "nat \<Rightarrow> string" where
  "digits10 n = (if n < 10 then [digit n] else digits10 (n div 10) @ [digit (n mod 10)])"

declare digits10.simps [simp del]

text \<open>The verb \<^verbatim>\<open>%d\<close> on a signed integer: a minus sign for negatives, then the decimal digits.\<close>

definition fmt_d :: "int \<Rightarrow> string" where
  "fmt_d i = (if i < 0 then CHR ''-'' # digits10 (nat (- i)) else digits10 (nat i))"

text \<open>Reading a decimal numeral back, to state that \<open>digits10\<close> writes the number it is given.\<close>

definition digit_value :: "char \<Rightarrow> nat" where
  "digit_value c = of_char c - 48"

definition decimal_value :: "string \<Rightarrow> nat" where
  "decimal_value s = foldl (\<lambda>a c. 10 * a + digit_value c) 0 s"

type_synonym float64 = "64 word"

definition f64_sign :: "float64 \<Rightarrow> bool" where
  "f64_sign x = (unat x div 2 ^ 63 = 1)"

definition f64_exponent :: "float64 \<Rightarrow> nat" where
  "f64_exponent x = unat x div 2 ^ 52 mod 2 ^ 11"

definition f64_fraction :: "float64 \<Rightarrow> nat" where
  "f64_fraction x = unat x mod 2 ^ 52"

text \<open>
  The absolute value of a finite float64 as a fraction \<open>(n, d)\<close>, meaning \<open>n / d\<close>:
  subnormals are \<open>fraction * 2^-1074\<close>, normals \<open>(2^52 + fraction) * 2^(exponent - 1075)\<close>.
\<close>

definition f64_magnitude :: "float64 \<Rightarrow> nat \<times> nat" where
  "f64_magnitude x =
     (let e = f64_exponent x; f = f64_fraction x
      in if e = 0 then (f, 2 ^ 1074)
         else if e < 1075 then (2 ^ 52 + f, 2 ^ (1075 - e))
         else ((2 ^ 52 + f) * 2 ^ (e - 1075), 1))"

text \<open>\<open>n / d\<close> rounded to the nearest integer, a tie going to the even neighbour.\<close>

definition round_half_even :: "nat \<Rightarrow> nat \<Rightarrow> nat" where
  "round_half_even n d =
     (let q = n div d; r = n mod d
      in if 2 * r < d then q
         else if d < 2 * r then q + 1
         else if even q then q else q + 1)"

text \<open>
  The verb \<^verbatim>\<open>%.2f\<close> on a float64. strconv converts the exact binary value to decimal and
  rounds it at the second fractional digit, half to even; the sign is kept even when the
  digits round to zero; NaN and the infinities print as \<^verbatim>\<open>NaN\<close>, \<^verbatim>\<open>+Inf\<close>, \<^verbatim>\<open>-Inf\<close>.
\<close>

definition fmt_f2 :: "float64 \<Rightarrow> string" where
  "fmt_f2 x =
     (if f64_exponent x = 2047
      then (if f64_fraction x \<noteq> 0 then ''NaN''
            else if f64_sign x then ''-Inf'' else ''+Inf'')
      else (let (n, d) = f64_magnitude x; h = round_half_even (100 * n) d
            in (if f64_sign x then ''-'' else '''')
               @ digits10 (h div 100) @ ''.'' @ [digit (h mod 100 div 10), digit (h mod 10)]))"

text \<open>The operands gomonitor.go passes to Sprintf: strings, an ExitCode and float64 fields.\<close>

datatype operand = Str string | Num int | Flt float64

text \<open>
  \<open>doPrintf\<close> interprets a format string the way fmt's loop of the same name does, for
  the directives the library's own format strings use: literal bytes are copied, \<^verbatim>\<open>%%\<close>
  is a percent sign, \<^verbatim>\<open>%s\<close> and \<^verbatim>\<open>%v\<close> print a string operand as it is, \<^verbatim>\<open>%d\<close> an
  integer operand, \<^verbatim>\<open>%.2f\<close> a float64 operand. It answers \<open>None\<close> on anything else
  (other verbs, flags, widths, a verb whose operand has another type, missing or
  left-over operands). \<open>Sprintf\<close> then hands the call to \<open>ext\<close>, a parameter that
  stands for what the real fmt package prints in those cases; the caller-supplied
  \<^verbatim>\<open>Format\<close> field of a CheckResult is the only format string that can get there.
\<close>

type_synonym fmt_ext = "string \<Rightarrow> operand list \<Rightarrow> string"

fun doPrintf :: "string \<Rightarrow> operand list \<Rightarrow> string option" where
  "doPrintf [] args = (if args = [] then Some [] else None)"
| "doPrintf [c] args =
     (if c = CHR ''%'' then None else map_option ((#) c) (doPrintf [] args))"
| "doPrintf (c # v # cs) args =
     (if c \<noteq> CHR ''%'' then map_option ((#) c) (doPrintf (v # cs) args)
      else if v = CHR ''%'' then map_option ((#) v) (doPrintf cs args)
      else if v = CHR ''s'' \<or> v = CHR ''v'' then
        (case args of Str s # rest \<Rightarrow> map_option ((@) s) (doPrintf cs rest) | _ \<Rightarrow> None)
      else if v = CHR ''d'' then
        (case args of Num n # rest \<Rightarrow> map_option ((@) (fmt_d n)) (doPrintf cs rest) | _ \<Rightarrow> None)
      else if v = CHR ''.'' then
        (case cs of
           p # f # cs' \<Rightarrow>
             if p = CHR ''2'' \<and> f = CHR ''f'' then
               (case args of
                  Flt x # rest \<Rightarrow> map_option ((@) (fmt_f2 x)) (doPrintf cs' rest)
                | _ \<Rightarrow> None)
             else None
         | _ \<Rightarrow> None)
      else None)"

definition Sprintf :: "fmt_ext \<Rightarrow> string \<Rightarrow> operand list \<Rightarrow> string" where
  "Sprintf ext format args =
     (case doPrintf format args of Some s \<Rightarrow> s | None \<Rightarrow> ext format args)"

text \<open>An instance of the parameter for closed statements: it prints nothing.\<close>

definition ext_silent :: fmt_ext where
  "ext_silent format args = []"

section \<open>ExitCode\<close>

type_synonym ExitCode = int

definition OK :: ExitCode where "OK = 0"
definition Warning :: ExitCode where "Warning = 1"
definition Critical :: ExitCode where "Critical = 2"
definition Unknown :: ExitCode where "Unknown = 3"

definition ExitCode_String :: "fmt_ext \<Rightarrow> ExitCode \<Rightarrow> string" where
  "ExitCode_String ext ec =
     (if ec = OK then ''OK''
      else if ec = Warning then ''Warning''
      else if ec = Critical then ''Critical''
      else if ec = Unknown then ''Unknown''
      else Sprintf ext ''ExitCode(%d)'' [Num ec])"

definition ExitCode_Int :: "ExitCode \<Rightarrow> int" where
  "ExitCode_Int ec =
     (if ec = OK then 0
      else if ec = Warning then 1
      else if ec = Critical then 2
      else if ec = Unknown then 3
      else ec)"

section \<open>Go maps and slices\<close>

text \<open>
  A Go map value is either nil or a finite table. Reading a nil map finds nothing, its
  length is 0 and \<^verbatim>\<open>delete\<close> on it does nothing, but storing into it panics. A slice
  is a list here: the library only uses \<^verbatim>\<open>len\<close>, \<^verbatim>\<open>append\<close>, \<^verbatim>\<open>range\<close>, indexing
  and re-slicing on \<^verbatim>\<open>PerfOrder\<close>, which behave alike on a nil and an empty slice.
  An index out of range panics, and so does a slice bound; Go checks the bound of
  \<^verbatim>\<open>s[:n]\<close> against the capacity, the model against the length, which is the same
  for the one bound the library uses, \<^verbatim>\<open>len(s)-1\<close>.
\<close>

datatype panic = NilMapAssignment | IndexOutOfRange | SliceBoundsOutOfRange

type_synonym ('k, 'v) gomap = "('k, 'v) fmap option"

definition and_then :: "panic + 'a \<Rightarrow> ('a \<Rightarrow> panic + 'b) \<Rightarrow> panic + 'b" where
  "and_then r f = (case r of Inl e \<Rightarrow> Inl e | Inr x \<Rightarrow> f x)"

text \<open>The two-valued lookup \<^verbatim>\<open>v, exists := m[k]\<close>: \<open>None\<close> when the key is not there.\<close>

definition map_get :: "('k, 'v) gomap \<Rightarrow> 'k \<Rightarrow> 'v option" where
  "map_get m k = (case m of None \<Rightarrow> None | Some t \<Rightarrow> fmlookup t k)"

definition map_len :: "('k, 'v) gomap \<Rightarrow> nat" where
  "map_len m = (case m of None \<Rightarrow> 0 | Some t \<Rightarrow> fcard (fmdom t))"

definition map_keys :: "('k, 'v) gomap \<Rightarrow> 'k fset" where
  "map_keys m = (case m of None \<Rightarrow> {||} | Some t \<Rightarrow> fmdom t)"

definition map_delete :: "('k, 'v) gomap \<Rightarrow> 'k \<Rightarrow> ('k, 'v) gomap" where
  "map_delete m k = (case m of None \<Rightarrow> None | Some t \<Rightarrow> Some (fmdrop k t))"

definition map_set :: "('k, 'v) gomap \<Rightarrow> 'k \<Rightarrow> 'v \<Rightarrow> panic + ('k, 'v) gomap" where
  "map_set m k v = (case m of None \<Rightarrow> Inl NilMapAssignment | Some t \<Rightarrow> Inr (Some (fmupd k v t)))"

definition slice_get :: "'a list \<Rightarrow> int \<Rightarrow> panic + 'a" where
  "slice_get xs i = (if 0 \<le> i \<and> i < int (length xs) then Inr (xs ! nat i) else Inl IndexOutOfRange)"

definition slice_set :: "'a list \<Rightarrow> int \<Rightarrow> 'a \<Rightarrow> panic + 'a list" where
  "slice_set xs i v =
     (if 0 \<le> i \<and> i < int (length xs) then Inr (xs[nat i := v]) else Inl IndexOutOfRange)"

definition slice_to :: "'a list \<Rightarrow> int \<Rightarrow> panic + 'a list" where
  "slice_to xs n =
     (if 0 \<le> n \<and> n \<le> int (length xs) then Inr (take (nat n) xs) else Inl SliceBoundsOutOfRange)"

section \<open>PerformanceMetric and CheckResult\<close>

text \<open>The fields \<^verbatim>\<open>Min\<close> and \<^verbatim>\<open>Max\<close> carry a suffix, the names being taken in HOL.\<close>

record PerformanceMetric =
  Value :: float64
  Warn :: float64
  Crit :: float64
  Min_m :: float64
  Max_m :: float64
  UnitOM :: string

text \<open>The zero value, which indexing a map yields for a key that is not there.\<close>

definition zero_metric :: PerformanceMetric where
  "zero_metric = \<lparr>Value = 0, Warn = 0, Crit = 0, Min_m = 0, Max_m = 0, UnitOM = []\<rparr>"

definition map_index :: "(string, PerformanceMetric) gomap \<Rightarrow> string \<Rightarrow> PerformanceMetric" where
  "map_index m k = (case map_get m k of None \<Rightarrow> zero_metric | Some v \<Rightarrow> v)"

record CheckResult =
  ExitCode :: ExitCode
  Message :: string
  PerfOrder :: "string list"
  PerformanceData :: "(string, PerformanceMetric) gomap"
  Format :: string
  perfIndexMap :: "(string, int) gomap"

text \<open>
  The methods have a pointer receiver and mutate it; here each takes the CheckResult
  the receiver points to and returns the updated one, or the panic that stopped it.
\<close>

definition SetResult :: "ExitCode \<Rightarrow> string \<Rightarrow> CheckResult \<Rightarrow> CheckResult" where
  "SetResult ec msg cr = (cr\<lparr>ExitCode := ec\<rparr>)\<lparr>Message := msg\<rparr>"

definition AddPerformanceData ::
    "string \<Rightarrow> PerformanceMetric \<Rightarrow> CheckResult \<Rightarrow> panic + CheckResult" where
  "AddPerformanceData metricName metric cr =
     (let cr1 = (if PerformanceData cr = None
                 then cr\<lparr>PerformanceData := Some fmempty, PerfOrder := [],
                         perfIndexMap := Some fmempty\<rparr>
                 else cr)
      in and_then
           (if map_get (PerformanceData cr1) metricName = None
            then (let cr2 = cr1\<lparr>PerfOrder := PerfOrder cr1 @ [metricName]\<rparr>
                  in and_then
                       (map_set (perfIndexMap cr2) metricName (int (length (PerfOrder cr2)) - 1))
                       (\<lambda>im. Inr (cr2\<lparr>perfIndexMap := im\<rparr>)))
            else Inr cr1)
           (\<lambda>cr3. and_then (map_set (PerformanceData cr3) metricName metric)
                    (\<lambda>pd. Inr (cr3\<lparr>PerformanceData := pd\<rparr>))))"

definition UpdatePerformanceData ::
    "string \<Rightarrow> PerformanceMetric \<Rightarrow> CheckResult \<Rightarrow> panic + CheckResult" where
  "UpdatePerformanceData metricName metric cr =
     and_then (map_set (PerformanceData cr) metricName metric)
       (\<lambda>pd. Inr (cr\<lparr>PerformanceData := pd\<rparr>))"

definition DeletePerformanceData :: "string \<Rightarrow> CheckResult \<Rightarrow> panic + CheckResult" where
  "DeletePerformanceData metricName cr =
     (if map_get (PerformanceData cr) metricName = None then Inr cr
      else
        (let cr1 = cr\<lparr>PerformanceData := map_delete (PerformanceData cr) metricName\<rparr>
         in case map_get (perfIndexMap cr1) metricName of
              None \<Rightarrow> Inr cr1
            | Some index \<Rightarrow>
                (let cr2 = cr1\<lparr>perfIndexMap := map_delete (perfIndexMap cr1) metricName\<rparr>
                 in and_then (slice_get (PerfOrder cr2) (int (length (PerfOrder cr2)) - 1))
                      (\<lambda>lastElement.
                         and_then (slice_set (PerfOrder cr2) index lastElement)
                           (\<lambda>po. let cr3 = cr2\<lparr>PerfOrder := po\<rparr>
                                 in and_then (map_set (perfIndexMap cr3) lastElement index)
                                      (\<lambda>im. let cr4 = cr3\<lparr>perfIndexMap := im\<rparr>
                                            in and_then
                                                 (slice_to (PerfOrder cr4)
                                                    (int (length (PerfOrder cr4)) - 1))
                                                 (\<lambda>po'. Inr (cr4\<lparr>PerfOrder := po'\<rparr>))))))))"

text \<open>The body of the \<^verbatim>\<open>range cr.PerfOrder\<close> loop of FormatResult, with its accumulator.\<close>

fun perf_loop ::
    "fmt_ext \<Rightarrow> (string, PerformanceMetric) gomap \<Rightarrow> string list \<Rightarrow> string \<Rightarrow> string" where
  "perf_loop ext pd [] performanceDataStr = performanceDataStr"
| "perf_loop ext pd (key # keys) performanceDataStr =
     (let metric = map_index pd key;
          metricStr = Sprintf ext '''%s'=%.2f%s;%.2f;%.2f;%.2f;%.2f ''
                        [Str key, Flt (Value metric), Str (UnitOM metric), Flt (Warn metric),
                         Flt (Crit metric), Flt (Min_m metric), Flt (Max_m metric)]
      in perf_loop ext pd keys (performanceDataStr @ metricStr))"

text \<open>FormatResult returns the string together with the CheckResult it leaves behind.\<close>

definition FormatResult :: "fmt_ext \<Rightarrow> CheckResult \<Rightarrow> string \<times> CheckResult" where
  "FormatResult ext cr =
     (let output = Sprintf ext (Format cr)
                     [Str (ExitCode_String ext (ExitCode cr)), Str (Message cr)]
      in if 0 < map_len (PerformanceData cr)
         then (let performanceDataStr = perf_loop ext (PerformanceData cr) (PerfOrder cr) []
               in (Sprintf ext ''%s | %s'' [Str output, Str performanceDataStr], cr))
         else (output, cr))"

text \<open>
  The process as SendResult sees it: what has been written to standard output so far.
  \<^verbatim>\<open>fmt.Println\<close> appends its operand and a newline (the write is taken to succeed; the
  source ignores its error result). \<^verbatim>\<open>os.Exit\<close> ends the process; the exit status that
  the parent process reads is the low 8 bits of the code it is given (256 is read as
  0 and -1 as 255), as on the Unix systems the plugin protocol and the repository's
  TestSendResult run on. SendResult yields the final output and that status.
\<close>

datatype exited = Exited (stdout: string) (status: int)

definition os_Exit :: "string \<Rightarrow> int \<Rightarrow> exited" where
  "os_Exit out code = Exited out (code mod 256)"

definition Println :: "string \<Rightarrow> string \<Rightarrow> string" where
  "Println out s = out @ s @ [CHR 0x0A]"

definition SendResult :: "fmt_ext \<Rightarrow> CheckResult \<Rightarrow> string \<Rightarrow> exited" where
  "SendResult ext cr out =
     (let (output, cr') = FormatResult ext cr
      in os_Exit (Println out output) (ExitCode_Int (ExitCode cr')))"

definition NewCheckResult :: CheckResult where
  "NewCheckResult =
     \<lparr>ExitCode = OK, Message = [], PerfOrder = [], PerformanceData = Some fmempty,
      Format = ''%s - %s'', perfIndexMap = Some fmempty\<rparr>"

section \<open>Sequences of public operations\<close>

datatype operation =
    Op_SetResult ExitCode string
  | Op_Add string PerformanceMetric
  | Op_Update string PerformanceMetric
  | Op_Delete string

fun apply_operation :: "operation \<Rightarrow> CheckResult \<Rightarrow> panic + CheckResult" where
  "apply_operation (Op_SetResult ec msg) cr = Inr (SetResult ec msg cr)"
| "apply_operation (Op_Add name metric) cr = AddPerformanceData name metric cr"
| "apply_operation (Op_Update name metric) cr = UpdatePerformanceData name metric cr"
| "apply_operation (Op_Delete name) cr = DeletePerformanceData name cr"

fun run :: "operation list \<Rightarrow> CheckResult \<Rightarrow> panic + CheckResult" where
  "run [] cr = Inr cr"
| "run (op # ops) cr = and_then (apply_operation op cr) (run ops)"

text \<open>
  The order sequence and the metric map are in sync: no name occurs twice in PerfOrder
  and the names of PerfOrder are the keys of PerformanceData.
\<close>

definition in_sync :: "CheckResult \<Rightarrow> bool" where
  "in_sync cr \<longleftrightarrow>
     distinct (PerfOrder cr) \<and> fset_of_list (PerfOrder cr) = map_keys (PerformanceData cr)"

text \<open>
  The metric of the README's example and of the tests: the float64 values of the Go
  constants 1.23, 1.00, 2.00, 0.00 and 10.00, and the unit ms. The second metric is the
  one of TestFormatResult_PerformanceData: 42.5, 30.0, 50.0, 0.0, 100.0 and the unit %.
\<close>

definition response_time_metric :: PerformanceMetric where
  "response_time_metric =
     \<lparr>Value = 0x3FF3AE147AE147AE, Warn = 0x3FF0000000000000, Crit = 0x4000000000000000,
      Min_m = 0, Max_m = 0x4024000000000000, UnitOM = ''ms''\<rparr>"

definition test_metric :: PerformanceMetric where
  "test_metric =
     \<lparr>Value = 0x4045400000000000, Warn = 0x403E000000000000, Crit = 0x4049000000000000,
      Min_m = 0, Max_m = 0x4059000000000000, UnitOM = ''%''\<rparr>"

section \<open>The invariant behind the order sequence\<close>

text \<open>
  \<open>indexed\<close>: perfIndexMap knows the position of every name of PerfOrder (it may hold
  stale entries for names that are gone). \<open>well_formed\<close>: both maps are allocated, the
  order sequence and the metric map are in sync, and the index map is right.
  \<open>updates_existing\<close>: along a run, every UpdatePerformanceData names a metric that is
  in the map at that moment, as the README describes the method.
\<close>

definition indexed :: "CheckResult \<Rightarrow> bool" where
  "indexed cr \<longleftrightarrow>
     (\<forall>i < length (PerfOrder cr). map_get (perfIndexMap cr) (PerfOrder cr ! i) = Some (int i))"

definition well_formed :: "CheckResult \<Rightarrow> bool" where
  "well_formed cr \<longleftrightarrow>
     PerformanceData cr \<noteq> None \<and> perfIndexMap cr \<noteq> None \<and> in_sync cr \<and> indexed cr"

fun updates_existing :: "operation list \<Rightarrow> CheckResult \<Rightarrow> bool" where
  "updates_existing [] cr = True"
| "updates_existing (op # ops) cr =
     ((case op of Op_Update name metric \<Rightarrow> map_get (PerformanceData cr) name \<noteq> None | _ \<Rightarrow> True)
      \<and> (case apply_operation op cr of Inl e \<Rightarrow> True | Inr cr' \<Rightarrow> updates_existing ops cr'))"

section \<open>Properties of the formatting fragment\<close>

lemmas ExitCode_consts = OK_def Warning_def Critical_def Unknown_def

lemmas gomap_defs = map_get_def map_len_def map_keys_def map_delete_def map_set_def

lemmas slice_defs = slice_get_def slice_set_def slice_to_def

lemmas f64_eval = fmt_f2_def f64_exponent_def f64_fraction_def f64_sign_def f64_magnitude_def
  round_half_even_def digits10.simps digit_def Let_def

lemma and_then_simps [simp]:
  "and_then (Inl e) f = Inl e" "and_then (Inr x) f = f x"
  by (simp_all add: and_then_def)

lemma Sprintf_ExitCode: "Sprintf ext ''ExitCode(%d)'' [Num n] = ''ExitCode('' @ fmt_d n @ '')''"
  by (simp add: Sprintf_def)

lemma Sprintf_default: "Sprintf ext ''%s - %s'' [Str a, Str b] = a @ '' - '' @ b"
  by (simp add: Sprintf_def)

lemma Sprintf_pipe: "Sprintf ext ''%s | %s'' [Str a, Str b] = a @ '' | '' @ b"
  by (simp add: Sprintf_def)

lemma Sprintf_metric:
  "Sprintf ext '''%s'=%.2f%s;%.2f;%.2f;%.2f;%.2f ''
     [Str key, Flt v, Str u, Flt w, Flt c, Flt lo, Flt hi]
   = [CHR 0x27] @ key @ [CHR 0x27] @ ''='' @ fmt_f2 v @ u @ '';'' @ fmt_f2 w @ '';'' @ fmt_f2 c
     @ '';'' @ fmt_f2 lo @ '';'' @ fmt_f2 hi @ '' ''"
  by (simp add: Sprintf_def)

lemma fmt_d_100: "fmt_d 100 = ''100''"
  by (simp add: fmt_d_def digits10.simps digit_def)

lemma fmt_d_negative: "fmt_d (- 7) = ''-7''"
  by (simp add: fmt_d_def digits10.simps digit_def)

text \<open>\<open>digits10\<close> writes the decimal numeral of its argument.\<close>

lemma digit_value_digit: "d < 10 \<Longrightarrow> digit_value (digit d) = d"
proof -
  assume "d < 10"
  then have "d = 0 \<or> d = 1 \<or> d = 2 \<or> d = 3 \<or> d = 4 \<or> d = 5 \<or> d = 6 \<or> d = 7 \<or> d = 8 \<or> d = 9"
    by arith
  then show ?thesis by (elim disjE) (simp_all add: digit_def digit_value_def)
qed

lemma decimal_value_snoc: "decimal_value (s @ [c]) = 10 * decimal_value s + digit_value c"
  by (simp add: decimal_value_def)

lemma decimal_value_digits10: "decimal_value (digits10 n) = n"
proof (induction n rule: digits10.induct)
  case (1 n)
  show ?case
  proof (cases "n < 10")
    case True
    then show ?thesis
      by (subst digits10.simps) (simp add: decimal_value_def digit_value_digit)
  next
    case False
    then have "decimal_value (digits10 (n div 10)) = n div 10" using 1 by simp
    then show ?thesis using False
      by (subst digits10.simps) (simp add: decimal_value_snoc digit_value_digit)
  qed
qed

text \<open>\<open>round_half_even n d\<close> is an integer nearest to \<open>n / d\<close>.\<close>

lemma round_half_even_nearest:
  assumes "0 < d"
  shows "2 * \<bar>int n - int (round_half_even n d) * int d\<bar> \<le> int d"
proof -
  have n: "int n = int (n div d) * int d + int (n mod d)"
    by (metis div_mult_mod_eq of_nat_add of_nat_mult)
  have r: "n mod d < d" using assms by simp
  show ?thesis
    using n r by (auto simp: round_half_even_def Let_def algebra_simps)
qed

text \<open>
  The bit pattern used for 1.23 is the float64 the Go compiler gives that constant: 1.23
  lies strictly between it and the next float64, nearer to it.
\<close>

lemma f64_1_23_nearest:
  "f64_magnitude 0x3FF3AE147AE147AE = (5539427541665710, 2 ^ 52)
   \<and> f64_magnitude 0x3FF3AE147AE147AF = (5539427541665711, 2 ^ 52)
   \<and> 100 * 5539427541665710 < 123 * (2::nat) ^ 52
   \<and> 123 * (2::nat) ^ 52 < 100 * 5539427541665711
   \<and> 123 * (2::nat) ^ 52 - 100 * 5539427541665710 < 100 * 5539427541665711 - 123 * 2 ^ 52"
  by (simp add: f64_magnitude_def f64_exponent_def f64_fraction_def)

lemma fmt_f2_1_23: "fmt_f2 0x3FF3AE147AE147AE = ''1.23''"
  by (simp add: f64_eval)

lemma fmt_f2_1: "fmt_f2 0x3FF0000000000000 = ''1.00''"
  by (simp add: f64_eval)

lemma fmt_f2_2: "fmt_f2 0x4000000000000000 = ''2.00''"
  by (simp add: f64_eval)

lemma fmt_f2_0: "fmt_f2 0 = ''0.00''"
  by (simp add: f64_eval)

lemma fmt_f2_10: "fmt_f2 0x4024000000000000 = ''10.00''"
  by (simp add: f64_eval)

text \<open>Ties go to the even digit, the sign survives rounding to zero, NaN has no sign.\<close>

lemma fmt_f2_tie_down: "fmt_f2 0x3FC0000000000000 = ''0.12''"
  by (simp add: f64_eval)

lemma fmt_f2_tie_up: "fmt_f2 0x3FD8000000000000 = ''0.38''"
  by (simp add: f64_eval)

lemma fmt_f2_negative_zero: "fmt_f2 0x8000000000000000 = ''-0.00''"
  by (simp add: f64_eval)

lemma fmt_f2_NaN: "fmt_f2 0x7FF8000000000001 = ''NaN''"
  by (simp add: f64_eval)

text \<open>The values the repository's tests format: 42.5, 30, 50, 100, 95, 80, 90, 88.5, 85.\<close>

lemma fmt_f2_test_values:
  "fmt_f2 0x4045400000000000 = ''42.50''" "fmt_f2 0x403E000000000000 = ''30.00''"
  "fmt_f2 0x4049000000000000 = ''50.00''" "fmt_f2 0x4059000000000000 = ''100.00''"
  "fmt_f2 0x4057C00000000000 = ''95.00''" "fmt_f2 0x4054000000000000 = ''80.00''"
  "fmt_f2 0x4056800000000000 = ''90.00''" "fmt_f2 0x4056200000000000 = ''88.50''"
  "fmt_f2 0x4055400000000000 = ''85.00''"
  by (simp_all add: f64_eval)

section \<open>Properties of Go maps\<close>

lemma fmdom_fempty_iff: "fmdom t = {||} \<longleftrightarrow> t = fmempty"
proof
  assume e: "fmdom t = {||}"
  show "t = fmempty"
  proof (rule fmap_ext)
    fix x
    have "x |\<notin>| fmdom t" using e by simp
    then show "fmlookup t x = fmlookup fmempty x" by (simp add: fmdom_notD)
  qed
qed simp

lemma map_len_pos: "0 < map_len m \<longleftrightarrow> (\<exists>t. m = Some t \<and> t \<noteq> fmempty)"
proof (cases m)
  case None
  then show ?thesis by (simp add: map_len_def)
next
  case (Some t)
  have "fcard (fmdom t) = 0 \<longleftrightarrow> t = fmempty"
    by (simp add: fcard_0_eq fmdom_fempty_iff)
  then have "0 < fcard (fmdom t) \<longleftrightarrow> t \<noteq> fmempty" by arith
  then show ?thesis using Some by (simp add: map_len_def)
qed

lemma map_len_upd1: "map_len (Some (fmupd k v fmempty)) = 1"
  by (simp add: map_len_def fcard_finsert_if)

section \<open>AddPerformanceData, case by case\<close>

lemma Add_nil:
  "PerformanceData cr = None \<Longrightarrow>
   AddPerformanceData name m cr
     = Inr (cr\<lparr>PerformanceData := Some (fmupd name m fmempty), PerfOrder := [name],
               perfIndexMap := Some (fmupd name 0 fmempty)\<rparr>)"
  by (simp add: AddPerformanceData_def gomap_defs Let_def)

lemma Add_new:
  "PerformanceData cr = Some pd \<Longrightarrow> fmlookup pd name = None \<Longrightarrow> perfIndexMap cr = Some im \<Longrightarrow>
   AddPerformanceData name m cr
     = Inr (cr\<lparr>PerfOrder := PerfOrder cr @ [name],
               perfIndexMap := Some (fmupd name (int (length (PerfOrder cr))) im),
               PerformanceData := Some (fmupd name m pd)\<rparr>)"
  by (simp add: AddPerformanceData_def gomap_defs Let_def)

lemma Add_new_nil_index:
  "PerformanceData cr = Some pd \<Longrightarrow> fmlookup pd name = None \<Longrightarrow> perfIndexMap cr = None \<Longrightarrow>
   AddPerformanceData name m cr = Inl NilMapAssignment"
  by (simp add: AddPerformanceData_def gomap_defs Let_def)

lemma Add_present:
  "PerformanceData cr = Some pd \<Longrightarrow> fmlookup pd name = Some v \<Longrightarrow>
   AddPerformanceData name m cr = Inr (cr\<lparr>PerformanceData := Some (fmupd name m pd)\<rparr>)"
  by (simp add: AddPerformanceData_def gomap_defs Let_def)

section \<open>DeletePerformanceData, case by case\<close>

lemma Delete_absent:
  "map_get (PerformanceData cr) name = None \<Longrightarrow> DeletePerformanceData name cr = Inr cr"
  by (simp add: DeletePerformanceData_def)

lemma Delete_unindexed:
  "map_get (PerformanceData cr) name = Some v \<Longrightarrow> map_get (perfIndexMap cr) name = None \<Longrightarrow>
   DeletePerformanceData name cr
     = Inr (cr\<lparr>PerformanceData := map_delete (PerformanceData cr) name\<rparr>)"
  by (simp add: DeletePerformanceData_def)

lemma Delete_indexed:
  assumes "PerformanceData cr = Some pd" and "fmlookup pd name = Some v"
    and "perfIndexMap cr = Some im" and "fmlookup im name = Some (int i)"
    and "i < length (PerfOrder cr)"
  shows "DeletePerformanceData name cr
     = Inr (cr\<lparr>PerformanceData := Some (fmdrop name pd),
               perfIndexMap := Some (fmupd (last (PerfOrder cr)) (int i) (fmdrop name im)),
               PerfOrder := butlast ((PerfOrder cr)[i := last (PerfOrder cr)])\<rparr>)"
proof -
  have ne: "PerfOrder cr \<noteq> []" using assms(5) by auto
  then have l: "PerfOrder cr ! (length (PerfOrder cr) - Suc 0) = last (PerfOrder cr)"
    by (simp add: last_conv_nth)
  have n: "nat (int (length (PerfOrder cr)) - 1) = length (PerfOrder cr) - Suc 0"
    by simp
  show ?thesis
    using assms ne l
    by (simp add: DeletePerformanceData_def gomap_defs slice_defs Let_def butlast_conv_take n)
qed

lemma swap_remove:
  assumes "distinct po" and "i < length po"
  shows "distinct (butlast (po[i := last po]))"
    and "set (butlast (po[i := last po])) = set po - {po ! i}"
    and "length (butlast (po[i := last po])) = length po - 1"
    and "\<forall>j < length po - 1. butlast (po[i := last po]) ! j = (if j = i then last po else po ! j)"
proof -
  from assms(2) have "po \<noteq> []" by auto
  then obtain xs l where po: "po = xs @ [l]" by (metis rev_exhaust)
  have lx: "l \<notin> set xs" and dx: "distinct xs" using assms(1) po by auto
  show "length (butlast (po[i := last po])) = length po - 1" by simp
  show "distinct (butlast (po[i := last po]))"
    using assms po lx dx by (cases "i < length xs") (auto simp: list_update_append distinct_list_update)
  show "set (butlast (po[i := last po])) = set po - {po ! i}"
    using assms po lx dx
    by (cases "i < length xs") (auto simp: list_update_append set_update_distinct nth_append)
  show "\<forall>j < length po - 1. butlast (po[i := last po]) ! j = (if j = i then last po else po ! j)"
    using assms po by (auto simp: list_update_append nth_append nth_butlast)
qed

section \<open>What the public operations preserve\<close>

lemma in_sync_set:
  "in_sync cr \<longleftrightarrow> distinct (PerfOrder cr) \<and> set (PerfOrder cr) = fset (map_keys (PerformanceData cr))"
  by (auto simp: in_sync_def fset_of_list.rep_eq fset_inject [symmetric])

lemma well_formed_New: "well_formed NewCheckResult"
  by (simp add: well_formed_def in_sync_def indexed_def NewCheckResult_def map_keys_def)

lemma well_formed_SetResult: "well_formed cr \<Longrightarrow> well_formed (SetResult ec msg cr)"
  by (simp add: well_formed_def in_sync_def indexed_def SetResult_def)

lemma well_formed_Add:
  assumes "well_formed cr"
  shows "\<exists>cr'. AddPerformanceData name m cr = Inr cr' \<and> well_formed cr'"
proof -
  from assms obtain pd im where pd: "PerformanceData cr = Some pd" and im: "perfIndexMap cr = Some im"
    by (auto simp: well_formed_def)
  from assms pd have d: "distinct (PerfOrder cr)" and s: "set (PerfOrder cr) = fset (fmdom pd)"
    by (auto simp: well_formed_def in_sync_set map_keys_def)
  from assms im have ix: "\<forall>i < length (PerfOrder cr). fmlookup im (PerfOrder cr ! i) = Some (int i)"
    by (auto simp: well_formed_def indexed_def map_get_def)
  show ?thesis
  proof (cases "fmlookup pd name")
    case None
    then have nin: "name \<notin> set (PerfOrder cr)" using s by (auto simp: fmdom_notI)
    have "well_formed (cr\<lparr>PerfOrder := PerfOrder cr @ [name],
               perfIndexMap := Some (fmupd name (int (length (PerfOrder cr))) im),
               PerformanceData := Some (fmupd name m pd)\<rparr>)"
      using d s ix nin
      by (auto simp: well_formed_def in_sync_set indexed_def map_keys_def map_get_def nth_append)
    then show ?thesis using pd im None by (simp add: Add_new)
  next
    case (Some v)
    then have "fmdom (fmupd name m pd) = fmdom pd" by (auto simp: fmdomI)
    then have "well_formed (cr\<lparr>PerformanceData := Some (fmupd name m pd)\<rparr>)"
      using assms pd by (simp add: well_formed_def in_sync_def indexed_def map_keys_def)
    then show ?thesis using pd Some by (simp add: Add_present)
  qed
qed

lemma well_formed_Update:
  assumes "well_formed cr" and "map_get (PerformanceData cr) name \<noteq> None"
  shows "\<exists>cr'. UpdatePerformanceData name m cr = Inr cr' \<and> well_formed cr'"
proof -
  from assms obtain pd v where pd: "PerformanceData cr = Some pd" and v: "fmlookup pd name = Some v"
    by (auto simp: well_formed_def map_get_def)
  then have "fmdom (fmupd name m pd) = fmdom pd" by (auto simp: fmdomI)
  then have "well_formed (cr\<lparr>PerformanceData := Some (fmupd name m pd)\<rparr>)"
    using assms pd by (simp add: well_formed_def in_sync_def indexed_def map_keys_def)
  then show ?thesis using pd by (simp add: UpdatePerformanceData_def map_set_def)
qed

lemma well_formed_Delete:
  assumes "well_formed cr"
  shows "\<exists>cr'. DeletePerformanceData name cr = Inr cr' \<and> well_formed cr'"
proof -
  from assms obtain pd im where pd: "PerformanceData cr = Some pd" and im: "perfIndexMap cr = Some im"
    by (auto simp: well_formed_def)
  let ?po = "PerfOrder cr"
  from assms pd have d: "distinct ?po" and s: "set ?po = fset (fmdom pd)"
    by (auto simp: well_formed_def in_sync_set map_keys_def)
  from assms im have ix: "\<forall>i < length ?po. fmlookup im (?po ! i) = Some (int i)"
    by (auto simp: well_formed_def indexed_def map_get_def)
  show ?thesis
  proof (cases "fmlookup pd name")
    case None
    then show ?thesis using assms pd by (simp add: Delete_absent map_get_def)
  next
    case (Some v)
    then have "name \<in> set ?po" using s by (auto simp: fmdomI)
    then obtain i where i: "i < length ?po" and n: "?po ! i = name"
      by (auto simp: in_set_conv_nth)
    then have l: "fmlookup im name = Some (int i)" using ix by auto
    let ?po' = "butlast (?po[i := last ?po])"
    let ?cr' = "cr\<lparr>PerformanceData := Some (fmdrop name pd),
               perfIndexMap := Some (fmupd (last ?po) (int i) (fmdrop name im)),
               PerfOrder := ?po'\<rparr>"
    note sr = swap_remove [OF d i]
    have "?po \<noteq> []" using i by auto
    then have last: "last ?po = ?po ! (length ?po - 1)" by (simp add: last_conv_nth)
    have "indexed ?cr'"
      unfolding indexed_def
    proof (intro allI impI)
      fix j assume "j < length (PerfOrder ?cr')"
      then have j: "j < length ?po - 1" using sr(3) by simp
      then have nj: "?po' ! j = (if j = i then last ?po else ?po ! j)" using sr(4) by blast
      show "map_get (perfIndexMap ?cr') (PerfOrder ?cr' ! j) = Some (int j)"
      proof (cases "j = i")
        case True
        then show ?thesis using nj by (simp add: map_get_def)
      next
        case False
        have "?po ! j \<noteq> last ?po" using d j last by (auto simp: nth_eq_iff_index_eq)
        moreover have "?po ! j \<noteq> name" using d j i n False by (auto simp: nth_eq_iff_index_eq)
        moreover have "fmlookup im (?po ! j) = Some (int j)" using ix j by auto
        ultimately show ?thesis using nj False by (simp add: map_get_def)
      qed
    qed
    moreover have "in_sync ?cr'"
      using sr(1) sr(2) s n by (auto simp: in_sync_set map_keys_def)
    ultimately have "well_formed ?cr'" by (simp add: well_formed_def)
    moreover have "DeletePerformanceData name cr = Inr ?cr'"
      using pd Some im l i by (rule Delete_indexed)
    ultimately show ?thesis by blast
  qed
qed

lemma well_formed_apply:
  assumes "well_formed cr"
    and "case op of Op_Update name metric \<Rightarrow> map_get (PerformanceData cr) name \<noteq> None | _ \<Rightarrow> True"
  shows "\<exists>cr'. apply_operation op cr = Inr cr' \<and> well_formed cr'"
proof (cases op)
  case (Op_SetResult ec msg)
  then show ?thesis using assms(1) by (simp add: well_formed_SetResult)
next
  case (Op_Add name metric)
  then show ?thesis using assms(1) by (simp add: well_formed_Add)
next
  case (Op_Update name metric)
  then show ?thesis using assms by (simp add: well_formed_Update)
next
  case (Op_Delete name)
  then show ?thesis using assms(1) by (simp add: well_formed_Delete)
qed

lemma run_well_formed:
  "well_formed cr \<Longrightarrow> updates_existing ops cr \<Longrightarrow> \<exists>cr'. run ops cr = Inr cr' \<and> well_formed cr'"
proof (induction ops arbitrary: cr)
  case Nil
  then show ?case by simp
next
  case (Cons op ops)
  from Cons.prems obtain cr1 where 1: "apply_operation op cr = Inr cr1" and w: "well_formed cr1"
    using well_formed_apply [of cr op] by auto
  from Cons.prems 1 have "updates_existing ops cr1" by simp
  with Cons.IH [OF w] show ?case using 1 by simp
qed

lemma run_stays_in_sync:
  "updates_existing ops NewCheckResult \<Longrightarrow> \<exists>cr'. run ops NewCheckResult = Inr cr' \<and> in_sync cr'"
  using run_well_formed [OF well_formed_New, of ops] by (auto simp: well_formed_def)

lemma Delete_swaps_last:
  assumes "well_formed cr" and "i < length (PerfOrder cr)"
  shows "\<exists>cr'. DeletePerformanceData (PerfOrder cr ! i) cr = Inr cr'
           \<and> PerfOrder cr' = butlast ((PerfOrder cr)[i := last (PerfOrder cr)])
           \<and> map_get (PerformanceData cr') (PerfOrder cr ! i) = None"
proof -
  from assms obtain pd im where pd: "PerformanceData cr = Some pd" and im: "perfIndexMap cr = Some im"
    by (auto simp: well_formed_def)
  from assms pd have "set (PerfOrder cr) = fset (fmdom pd)"
    by (auto simp: well_formed_def in_sync_set map_keys_def)
  then have "PerfOrder cr ! i |\<in>| fmdom pd" using assms(2) by (metis nth_mem)
  then obtain v where v: "fmlookup pd (PerfOrder cr ! i) = Some v" by (auto simp: fmlookup_dom_iff)
  from assms im have l: "fmlookup im (PerfOrder cr ! i) = Some (int i)"
    by (auto simp: well_formed_def indexed_def map_get_def)
  show ?thesis
    using Delete_indexed [OF pd v im l assms(2)] by (simp add: map_get_def)
qed

lemma Delete_after_blind_update_panics:
  "run [Op_Add ''a'' zero_metric, Op_Add ''b'' zero_metric, Op_Delete ''b'',
        Op_Update ''b'' zero_metric, Op_Delete ''b''] NewCheckResult
   = Inl IndexOutOfRange"
  by (simp add: NewCheckResult_def AddPerformanceData_def DeletePerformanceData_def
      UpdatePerformanceData_def gomap_defs slice_defs Let_def)

lemma allocated_together_apply:
  assumes "apply_operation op cr = Inr cr'"
    and "PerformanceData cr \<noteq> None \<longrightarrow> perfIndexMap cr \<noteq> None"
  shows "PerformanceData cr' \<noteq> None \<longrightarrow> perfIndexMap cr' \<noteq> None"
proof (cases op)
  case (Op_SetResult ec msg)
  then show ?thesis using assms by (auto simp: SetResult_def)
next
  case (Op_Add name metric)
  then show ?thesis using assms
    by (auto simp: AddPerformanceData_def gomap_defs Let_def and_then_def
        split: if_splits option.splits sum.splits)
next
  case (Op_Update name metric)
  then show ?thesis using assms
    by (auto simp: UpdatePerformanceData_def gomap_defs split: option.splits)
next
  case (Op_Delete name)
  then show ?thesis using assms
    by (auto simp: DeletePerformanceData_def gomap_defs slice_defs Let_def and_then_def
        split: if_splits option.splits sum.splits)
qed

section \<open>ExitCode: names and numbers\<close>

text \<open>
  C3: String returns OK, Warning, Critical, Unknown for the four constants and Int
  returns 0, 1, 2, 3; for every other integer n, String returns ExitCode(n) with n
  in decimal and Int returns n itself. Both are total functions.
\<close>

theorem ExitCode_String_Int_total:
  "ExitCode_String ext OK = ''OK'' \<and> ExitCode_String ext Warning = ''Warning''
   \<and> ExitCode_String ext Critical = ''Critical'' \<and> ExitCode_String ext Unknown = ''Unknown''
   \<and> ExitCode_Int OK = 0 \<and> ExitCode_Int Warning = 1
   \<and> ExitCode_Int Critical = 2 \<and> ExitCode_Int Unknown = 3
   \<and> (n \<notin> {0, 1, 2, 3} \<longrightarrow>
        ExitCode_String ext n = ''ExitCode('' @ fmt_d n @ '')'' \<and> ExitCode_Int n = n)"
  by (simp add: ExitCode_String_def ExitCode_Int_def ExitCode_consts Sprintf_ExitCode)

theorem ExitCode_String_Int_total_witness:
  "(100::int) \<notin> {0, 1, 2, 3}
   \<and> ExitCode_String ext_silent 100 = ''ExitCode(100)'' \<and> ExitCode_Int 100 = 100"
  using ExitCode_String_Int_total [of ext_silent 100] by (simp add: fmt_d_100)

section \<open>SetResult\<close>

text \<open>
  C10: SetResult assigns the ExitCode and Message fields and leaves PerformanceData,
  PerfOrder, perfIndexMap and Format as they were.
\<close>

theorem SetResult_frame:
  "ExitCode (SetResult ec msg cr) = ec \<and> Message (SetResult ec msg cr) = msg
   \<and> PerformanceData (SetResult ec msg cr) = PerformanceData cr
   \<and> PerfOrder (SetResult ec msg cr) = PerfOrder cr
   \<and> perfIndexMap (SetResult ec msg cr) = perfIndexMap cr
   \<and> Format (SetResult ec msg cr) = Format cr"
  by (simp add: SetResult_def)

section \<open>AddPerformanceData and UpdatePerformanceData\<close>

text \<open>
  Two reports on which a second AddPerformanceData cannot leave the name where the first
  call placed it. With the metric map allocated and the index map nil (a CheckResult
  literal that sets only the exported fields) the first call panics on the index map.
  After UpdatePerformanceData has put a new name into the metric map, both calls find
  it there and never append it: the name has no place in the order sequence at all.
\<close>

theorem AddPerformanceData_twice_counterexample:
  "AddPerformanceData ''x'' zero_metric (NewCheckResult\<lparr>perfIndexMap := None\<rparr>)
     = Inl NilMapAssignment
   \<and> map_sum id PerfOrder
       (run [Op_Update ''x'' zero_metric, Op_Add ''x'' zero_metric,
             Op_Add ''x'' response_time_metric] NewCheckResult)
     = Inr []"
  by (simp add: NewCheckResult_def AddPerformanceData_def UpdatePerformanceData_def
      gomap_defs Let_def)

text \<open>
  C6, amended: take a report whose index map is allocated whenever its metric map is,
  and in which the name, if it is already a key of the metric map, occurs in the order
  sequence (every well-formed report and the zero value are such). Then two calls of
  AddPerformanceData with that name both return; the first leaves the name at a
  position p of the order sequence (appended at the end when the name is new, where it
  was otherwise); after the second the name is at the same position p, the whole order
  sequence being unchanged, and the metric stored under the name is the second call's.
\<close>

theorem AddPerformanceData_twice:
  assumes alloc: "PerformanceData cr = None \<or> perfIndexMap cr \<noteq> None"
    and ordered: "map_get (PerformanceData cr) name = None \<or> name \<in> set (PerfOrder cr)"
  shows "\<exists>cr1 cr2 p. AddPerformanceData name m1 cr = Inr cr1
           \<and> AddPerformanceData name m2 cr1 = Inr cr2
           \<and> PerfOrder cr1 = (if PerformanceData cr = None then [name]
                               else if map_get (PerformanceData cr) name = None
                                    then PerfOrder cr @ [name]
                                    else PerfOrder cr)
           \<and> p < length (PerfOrder cr1) \<and> PerfOrder cr1 ! p = name
           \<and> PerfOrder cr2 ! p = name \<and> PerfOrder cr2 = PerfOrder cr1
           \<and> map_get (PerformanceData cr2) name = Some m2"
proof -
  have first: "\<exists>cr1 pd1 p. AddPerformanceData name m1 cr = Inr cr1
                 \<and> PerformanceData cr1 = Some pd1 \<and> fmlookup pd1 name = Some m1
                 \<and> PerfOrder cr1 = (if PerformanceData cr = None then [name]
                                     else if map_get (PerformanceData cr) name = None
                                          then PerfOrder cr @ [name]
                                          else PerfOrder cr)
                 \<and> p < length (PerfOrder cr1) \<and> PerfOrder cr1 ! p = name"
  proof (cases "PerformanceData cr")
    case None
    then show ?thesis by (simp add: Add_nil)
  next
    case (Some pd)
    show ?thesis
    proof (cases "fmlookup pd name")
      case None
      then obtain im where im: "perfIndexMap cr = Some im" using alloc Some by auto
      have "(PerfOrder cr @ [name]) ! length (PerfOrder cr) = name" by simp
      then show ?thesis using Some None im
        by (simp add: Add_new map_get_def del: nth_append_length) force
    next
      case present: (Some v)
      then have "name \<in> set (PerfOrder cr)" using ordered Some by (simp add: map_get_def)
      then obtain p where "p < length (PerfOrder cr)" and "PerfOrder cr ! p = name"
        by (auto simp: in_set_conv_nth)
      then show ?thesis using Some present by (auto simp: Add_present map_get_def)
    qed
  qed
  then obtain cr1 pd1 p where 1: "AddPerformanceData name m1 cr = Inr cr1"
    and 2: "PerformanceData cr1 = Some pd1" and 3: "fmlookup pd1 name = Some m1"
    and 4: "PerfOrder cr1 = (if PerformanceData cr = None then [name]
                             else if map_get (PerformanceData cr) name = None
                                  then PerfOrder cr @ [name]
                                  else PerfOrder cr)"
    and 5: "p < length (PerfOrder cr1)" and 6: "PerfOrder cr1 ! p = name"
    by blast
  have s: "AddPerformanceData name m2 cr1
             = Inr (cr1\<lparr>PerformanceData := Some (fmupd name m2 pd1)\<rparr>)"
    using 2 3 by (rule Add_present)
  show ?thesis
  proof (intro exI conjI)
    show "AddPerformanceData name m1 cr = Inr cr1" by (rule 1)
    show "AddPerformanceData name m2 cr1
            = Inr (cr1\<lparr>PerformanceData := Some (fmupd name m2 pd1)\<rparr>)" by (rule s)
    show "PerfOrder cr1 = (if PerformanceData cr = None then [name]
                           else if map_get (PerformanceData cr) name = None
                                then PerfOrder cr @ [name]
                                else PerfOrder cr)" by (rule 4)
    show "p < length (PerfOrder cr1)" by (rule 5)
    show "PerfOrder cr1 ! p = name" by (rule 6)
    show "PerfOrder (cr1\<lparr>PerformanceData := Some (fmupd name m2 pd1)\<rparr>) ! p = name"
      using 6 by simp
    show "PerfOrder (cr1\<lparr>PerformanceData := Some (fmupd name m2 pd1)\<rparr>) = PerfOrder cr1"
      by simp
    show "map_get (PerformanceData (cr1\<lparr>PerformanceData := Some (fmupd name m2 pd1)\<rparr>)) name
            = Some m2"
      by (simp add: map_get_def)
  qed
qed

theorem AddPerformanceData_twice_witness:
  "perfIndexMap
      \<lparr>ExitCode = OK, Message = [], PerfOrder = [''a''],
       PerformanceData = Some (fmupd ''a'' zero_metric fmempty),
       Format = ''%s - %s'', perfIndexMap = Some (fmupd ''a'' 0 fmempty)\<rparr>
     = Some (fmupd ''a'' 0 fmempty)
   \<and> map_get (Some (fmupd ''a'' zero_metric fmempty)) ''load'' = None
   \<and> (\<exists>cr1 cr2 p.
         AddPerformanceData ''load'' zero_metric
            \<lparr>ExitCode = OK, Message = [], PerfOrder = [''a''],
             PerformanceData = Some (fmupd ''a'' zero_metric fmempty),
             Format = ''%s - %s'', perfIndexMap = Some (fmupd ''a'' 0 fmempty)\<rparr>
           = Inr cr1
         \<and> AddPerformanceData ''load'' response_time_metric cr1 = Inr cr2
         \<and> PerfOrder cr1 = [''a'', ''load'']
         \<and> p < length (PerfOrder cr1) \<and> PerfOrder cr1 ! p = ''load''
         \<and> PerfOrder cr2 ! p = ''load'' \<and> PerfOrder cr2 = PerfOrder cr1
         \<and> map_get (PerformanceData cr2) ''load'' = Some response_time_metric)"
  using AddPerformanceData_twice
    [of "\<lparr>ExitCode = OK, Message = [], PerfOrder = [''a''],
          PerformanceData = Some (fmupd ''a'' zero_metric fmempty),
          Format = ''%s - %s'', perfIndexMap = Some (fmupd ''a'' 0 fmempty)\<rparr>"
        "''load''" zero_metric response_time_metric]
  by (simp add: map_get_def)

text \<open>Every well-formed report, whatever the name, is a report of that kind.\<close>

lemma well_formed_ordered:
  "well_formed cr \<Longrightarrow>
   perfIndexMap cr \<noteq> None
   \<and> (map_get (PerformanceData cr) name = None \<or> name \<in> set (PerfOrder cr))"
  by (cases "PerformanceData cr")
     (auto simp: well_formed_def in_sync_set map_keys_def map_get_def fmlookup_dom_iff)

text \<open>
  C7: on a report whose metric map is allocated, UpdatePerformanceData returns without
  a panic and stores the metric under the name, whether or not the name was a key
  before; nothing else of the report changes.
\<close>

theorem UpdatePerformanceData_upsert:
  assumes "PerformanceData cr = Some pd"
  shows "UpdatePerformanceData name metric cr
           = Inr (cr\<lparr>PerformanceData := Some (fmupd name metric pd)\<rparr>)
         \<and> map_get (Some (fmupd name metric pd)) name = Some metric"
  using assms by (simp add: UpdatePerformanceData_def gomap_defs)

theorem UpdatePerformanceData_upsert_witness:
  "PerformanceData NewCheckResult = Some fmempty
   \<and> map_get (PerformanceData NewCheckResult) ''load'' = None
   \<and> UpdatePerformanceData ''load'' response_time_metric NewCheckResult
       = Inr (NewCheckResult\<lparr>PerformanceData := Some (fmupd ''load'' response_time_metric fmempty)\<rparr>)
   \<and> map_get (Some (fmupd ''load'' response_time_metric fmempty)) ''load''
       = Some response_time_metric"
  using UpdatePerformanceData_upsert [of NewCheckResult fmempty "''load''" response_time_metric]
  by (simp add: NewCheckResult_def map_get_def)

section \<open>DeletePerformanceData and the order of the metrics\<close>

text \<open>
  C1: deleting a name that is not the last of the order sequence should leave the other
  names in their order. DeletePerformanceData instead moves the last name into the
  freed slot: after adding a, b and c, deleting a leaves the order c, b and not b, c.
\<close>

theorem Delete_first_of_three_reorders:
  "map_sum id PerfOrder
     (run [Op_Add ''a'' zero_metric, Op_Add ''b'' zero_metric, Op_Add ''c'' zero_metric,
           Op_Delete ''a''] NewCheckResult)
   = Inr [''c'', ''b'']"
  by (simp add: NewCheckResult_def AddPerformanceData_def DeletePerformanceData_def
      gomap_defs slice_defs Let_def)

text \<open>
  C2: after every sequence of public operations PerfOrder should hold exactly the keys
  of PerformanceData. UpdatePerformanceData with a name that is not yet a key stores it
  in the map and leaves PerfOrder alone: on a new report the map then has the key x and
  the order sequence is empty.
\<close>

theorem Update_absent_out_of_sync:
  "run [Op_Update ''x'' zero_metric] NewCheckResult
     = Inr (NewCheckResult\<lparr>PerformanceData := Some (fmupd ''x'' zero_metric fmempty)\<rparr>)
   \<and> \<not> in_sync (NewCheckResult\<lparr>PerformanceData := Some (fmupd ''x'' zero_metric fmempty)\<rparr>)"
  by (simp add: NewCheckResult_def UpdatePerformanceData_def in_sync_def gomap_defs
      finsert_not_fempty [symmetric])

section \<open>FormatResult and SendResult\<close>

text \<open>
  C4: with the default format, status OK, the message Everything is fine and the one
  metric response_time (1.23, 1.00, 2.00, 0.00, 10.00, ms), FormatResult returns the
  line below, every number with two decimals and a space after the metric.
\<close>

theorem FormatResult_response_time:
  "fst (FormatResult ext
     \<lparr>ExitCode = OK, Message = ''Everything is fine'', PerfOrder = [''response_time''],
      PerformanceData = Some (fmupd ''response_time'' response_time_metric fmempty),
      Format = ''%s - %s'', perfIndexMap = idx\<rparr>)
   = ''OK - Everything is fine | 'response_time'=1.23ms;1.00;2.00;0.00;10.00 ''"
  by (simp add: FormatResult_def Sprintf_default Sprintf_pipe Sprintf_metric map_len_upd1
      map_index_def map_get_def ExitCode_String_def response_time_metric_def
      fmt_f2_1_23 fmt_f2_1 fmt_f2_2 fmt_f2_0 fmt_f2_10)

text \<open>
  C5: when the metric map is empty (or nil) and the format is the default one,
  FormatResult returns the status name, space hyphen space, and the message, and
  nothing after it.
\<close>

theorem FormatResult_no_metrics:
  assumes "Format cr = ''%s - %s''" and "map_len (PerformanceData cr) = 0"
  shows "fst (FormatResult ext cr) = ExitCode_String ext (ExitCode cr) @ '' - '' @ Message cr"
  using assms by (simp add: FormatResult_def Sprintf_default)

theorem FormatResult_no_metrics_witness:
  "Format (SetResult Warning ''Test message'' NewCheckResult) = ''%s - %s''
   \<and> map_len (PerformanceData (SetResult Warning ''Test message'' NewCheckResult)) = 0
   \<and> fst (FormatResult ext_silent (SetResult Warning ''Test message'' NewCheckResult))
       = ''Warning - Test message''"
  using FormatResult_no_metrics [of "SetResult Warning ''Test message'' NewCheckResult" ext_silent]
  by (simp add: SetResult_def NewCheckResult_def map_len_def ExitCode_String_def ExitCode_consts)

text \<open>
  C8: FormatResult leaves the report exactly as it found it, and a second call right
  after the first returns the same string.
\<close>

theorem FormatResult_pure:
  "snd (FormatResult ext cr) = cr
   \<and> fst (FormatResult ext (snd (FormatResult ext cr))) = fst (FormatResult ext cr)"
  by (simp add: FormatResult_def Let_def)

text \<open>
  With the exit code 256 (any integer is an ExitCode, and Int returns it as it is) the
  process ends with status 0, which is not what Int returns.
\<close>

theorem SendResult_exit_status_counterexample:
  "status (SendResult ext_silent (SetResult 256 [] NewCheckResult) []) = 0
   \<and> ExitCode_Int (ExitCode (SetResult 256 [] NewCheckResult)) = 256"
  by (simp add: SendResult_def os_Exit_def FormatResult_def SetResult_def NewCheckResult_def
      ExitCode_Int_def ExitCode_consts Let_def split_def)

text \<open>
  C9, amended: SendResult appends to standard output the string FormatResult returns and
  a newline, and hands os.Exit the number ExitCode.Int gives; the process ends with the
  low 8 bits of that number as its exit status, which is the number itself whenever it
  lies between 0 and 255, as it does for OK, Warning, Critical and Unknown.
\<close>

theorem SendResult_prints_and_exits:
  "SendResult ext cr out
     = Exited (out @ fst (FormatResult ext cr) @ [CHR 0x0A])
         (ExitCode_Int (ExitCode cr) mod 256)
   \<and> (0 \<le> ExitCode_Int (ExitCode cr) \<and> ExitCode_Int (ExitCode cr) \<le> 255 \<longrightarrow>
        status (SendResult ext cr out) = ExitCode_Int (ExitCode cr))"
  by (simp add: SendResult_def os_Exit_def Println_def FormatResult_def Let_def)

theorem SendResult_prints_and_exits_witness:
  "0 \<le> ExitCode_Int (ExitCode (SetResult Critical ''disk full'' NewCheckResult))
   \<and> ExitCode_Int (ExitCode (SetResult Critical ''disk full'' NewCheckResult)) \<le> 255
   \<and> SendResult ext_silent (SetResult Critical ''disk full'' NewCheckResult) []
       = Exited (''Critical - disk full'' @ [CHR 0x0A]) 2
   \<and> status (SendResult ext_silent (SetResult Critical ''disk full'' NewCheckResult) []) = 2"
  using SendResult_prints_and_exits
    [of ext_silent "SetResult Critical ''disk full'' NewCheckResult" "[]"]
  by (simp add: SetResult_def NewCheckResult_def ExitCode_Int_def ExitCode_consts
      FormatResult_def Sprintf_default map_len_def fcard_fempty ExitCode_String_def Let_def)

section \<open>The repository's format tests on the model\<close>

text \<open>
  TestFormatResult_PerformanceData expects the token of test_metric with two decimals;
  the cases MultiplePerfData and CustomFormatString of TestFormatResult print two metrics
  in the order they were added and use a format with an escaped percent sign;
  TestSendResult expects the exit status 0. The report with the one metric response_time
  is what NewCheckResult, SetResult and AddPerformanceData build.
\<close>

lemma test_PerformanceData_format:
  "map_sum id (\<lambda>cr. fst (FormatResult ext cr))
     (run [Op_SetResult OK ''Check passed'', Op_Add ''test_metric'' test_metric] NewCheckResult)
   = Inr ''OK - Check passed | 'test_metric'=42.50%;30.00;50.00;0.00;100.00 ''"
  by (simp add: NewCheckResult_def SetResult_def Add_new FormatResult_def Sprintf_default
      Sprintf_pipe Sprintf_metric map_len_upd1 map_index_def map_get_def ExitCode_String_def
      test_metric_def fmt_f2_test_values fmt_f2_0)

lemma test_MultiplePerfData:
  "map_sum id (\<lambda>cr. fst (FormatResult ext cr))
     (run [Op_SetResult Critical ''CPU overloaded'',
           Op_Add ''cpu_usage''
             \<lparr>Value = 0x4057C00000000000, Warn = 0x4054000000000000, Crit = 0x4056800000000000,
              Min_m = 0, Max_m = 0x4059000000000000, UnitOM = []\<rparr>,
           Op_Add ''memory_usage''
             \<lparr>Value = 0x4056200000000000, Warn = 0x4055400000000000, Crit = 0x4057C00000000000,
              Min_m = 0, Max_m = 0x4059000000000000, UnitOM = []\<rparr>] NewCheckResult)
   = Inr (''Critical - CPU overloaded | 'cpu_usage'=95.00;80.00;90.00;0.00;100.00 ''
          @ '''memory_usage'=88.50;85.00;95.00;0.00;100.00 '')"
  by (simp add: NewCheckResult_def SetResult_def Add_new FormatResult_def Sprintf_default
      Sprintf_pipe Sprintf_metric map_len_pos map_index_def map_get_def ExitCode_String_def
      ExitCode_consts fmt_f2_test_values fmt_f2_0)

lemma test_CustomFormatString:
  "fst (FormatResult ext
     (SetResult Unknown ''Plugin unable to determine status''
        (NewCheckResult\<lparr>Format := ''[%s] %s (details: %%s)''\<rparr>)))
   = ''[Unknown] Plugin unable to determine status (details: %s)''"
  by (simp add: FormatResult_def SetResult_def NewCheckResult_def Sprintf_def map_len_def
      ExitCode_String_def ExitCode_consts Let_def)

lemma test_SendResult:
  "SendResult ext (SetResult OK ''Test Message'' NewCheckResult) []
   = Exited (''OK - Test Message'' @ [CHR 0x0A]) 0"
  by (simp add: SendResult_def Println_def FormatResult_def SetResult_def NewCheckResult_def
      os_Exit_def Sprintf_default map_len_def fcard_fempty ExitCode_String_def ExitCode_Int_def
      ExitCode_consts Let_def)

lemma response_time_report_built:
  "run [Op_SetResult OK ''Everything is fine'', Op_Add ''response_time'' response_time_metric]
     NewCheckResult
   = Inr \<lparr>ExitCode = OK, Message = ''Everything is fine'', PerfOrder = [''response_time''],
          PerformanceData = Some (fmupd ''response_time'' response_time_metric fmempty),
          Format = ''%s - %s'', perfIndexMap = Some (fmupd ''response_time'' 0 fmempty)\<rparr>"
  by (simp add: NewCheckResult_def SetResult_def Add_new)

end
